theory Spec2Isabelle
  imports Complex_Main "HOL-Library.Char_ord" "HOL-Library.List_Lexorder" "HOL-Library.Sublist"
begin

section \<open>Colormap utilities of napari: a shallow embedding of colormap_utils.py\<close>

text \<open>
  Conventions of the embedding.
  \<^item> numpy floats are modelled as \<^typ>\<open>real\<close>: every arithmetic step is exact, so rounding
    of IEEE doubles is not represented.
  \<^item> An array of shape (N, 3) is a list of triples, an array of shape (N, 4) a list of rows.
  \<^item> Python exceptions are values of \<open>exc\<close>; a function that can raise returns
    \<open>exc + 'a\<close> with \<open>Inl\<close> for the exception.
  \<^item> A \<open>while\<close> loop that need not end is a \<^theory_text>\<open>partial_function\<close> into
    \<open>option\<close>: \<open>None\<close> means that the call never returns.
\<close>

datatype exc = KeyError string | TypeError string | ValueError string
  | ZeroDivisionError | IndexError

subsection \<open>low_discrepancy_image (source lines 144-170)\<close>




subsection \<open>increment_unnamed_colormap (source lines 361-381)\<close>

text \<open>Python's \<open>str.startswith\<close>.\<close>

definition startswith :: "string \<Rightarrow> string \<Rightarrow> bool" where
  "startswith s p = (take (length p) s = p)"

text \<open>The decimal digits that an f-string writes for a non-negative integer.\<close>

definition digit_char :: "nat \<Rightarrow> char" where
  "digit_char d = ''0123456789'' ! d"

fun str_nat :: "nat \<Rightarrow> string" where
  "str_nat n = (if n < 10 then [digit_char n] else str_nat (n div 10) @ [digit_char (n mod 10)])"

declare str_nat.simps [simp del]

definition increment_unnamed_colormap :: "string list \<Rightarrow> string \<Rightarrow> string" where
  "increment_unnamed_colormap existing name =
     (if name = ''[unnamed colormap]'' then
        (let past_names = filter (\<lambda>n. startswith n ''[unnamed colormap'') existing
         in ''[unnamed colormap '' @ str_nat (length past_names) @ '']'')
      else name)"

text \<open>
  The scenario of successive calls: the returned name is added to the existing names
  (as \<open>ensure_colormap\<close> does with a new key of the registry) before the next call.
\<close>

definition add_unnamed :: "string list \<Rightarrow> string list" where
  "add_unnamed existing = existing @ [increment_unnamed_colormap existing ''[unnamed colormap]'']"

text \<open>
  The names that the count-based scheme itself produces, and the lists on which it is
  safe: every existing name with the prefix is one of the first \<open>k\<close> generated names,
  where \<open>k\<close> is the number of existing names with the prefix.
\<close>

definition unnamed :: "nat \<Rightarrow> string" where
  "unnamed i = ''[unnamed colormap '' @ str_nat i @ '']''"

definition count_unnamed :: "string list \<Rightarrow> nat" where
  "count_unnamed existing = length (filter (\<lambda>n. startswith n ''[unnamed colormap'') existing)"

definition auto_named :: "string list \<Rightarrow> bool" where
  "auto_named existing =
     list_all (\<lambda>n. \<not> startswith n ''[unnamed colormap'' \<or>
                   n \<in> unnamed ` {..<count_unnamed existing}) existing"

subsection \<open>The Colormap value type and foreign colormaps\<close>

text \<open>
  Modelled from the spec: the Colormap value type (its module,
  napari/utils/colormaps/colormap.py, is not among the sources). The spec gives it the four
  fields \<open>name\<close>, \<open>colors\<close>, \<open>controls\<close> and
  \<open>interpolation\<close>, with empty controls meaning evenly spaced ones. The constructor is
  modelled as storing its arguments; for an omitted argument it stores the name
  \<open>custom\<close>, no controls and linear interpolation. No statement below depends on these
  three defaults.
\<close>

record colormap =
  colors :: "real list list"
  name :: string
  controls :: "real list"
  interpolation :: string

definition Colormap ::
  "real list list \<Rightarrow> string option \<Rightarrow> real list option \<Rightarrow> string option \<Rightarrow> colormap" where
  "Colormap cols nm ctrls interp =
     \<lparr>colors = cols,
      name = (case nm of Some n \<Rightarrow> n | None \<Rightarrow> ''custom''),
      controls = (case ctrls of Some c \<Rightarrow> c | None \<Rightarrow> []),
      interpolation = (case interp of Some i \<Rightarrow> i | None \<Rightarrow> ''linear'')\<rparr>"

text \<open>
  A vispy colormap (an external type): its \<open>colors.rgba\<close> table, and the attributes
  \<open>_controls\<close> and \<open>interpolation\<close> that not every vispy colormap has.
\<close>

record vispy_colormap =
  rgba :: "real list list"
  vispy_controls :: "real list option"
  vispy_interpolation :: "string option"

text \<open>The Python values that can reach \<open>ensure_colormap\<close>. Dict keys are strings.\<close>

datatype pyobj =
    is_Str: Str string
  | is_NapariColormap: NapariColormap colormap
  | is_VispyColormap: VispyColormap vispy_colormap
  | Tuple "pyobj list"
  | Dict "(string \<times> pyobj) list"
  | Other string

subsection \<open>convert_vispy_colormap (source lines 66-104)\<close>

definition convert_vispy_colormap :: "pyobj \<Rightarrow> string \<Rightarrow> exc + colormap" where
  "convert_vispy_colormap cmap nm =
     (case cmap of
        VispyColormap v \<Rightarrow>
          (let ctrls = (case vispy_controls v of Some c \<Rightarrow> c | None \<Rightarrow> []);
               interp = (case vispy_interpolation v of Some i \<Rightarrow> i | None \<Rightarrow> ''linear'')
           in Inr (Colormap (rgba v) (Some nm) (Some ctrls) (Some interp)))
      | _ \<Rightarrow> Inl (TypeError ''Colormap must be a vispy colormap if passed to from_vispy''))"

subsection \<open>_validate_rgb (source lines 107-141)\<close>

type_synonym point = "real \<times> real \<times> real"

definition clip :: "real \<Rightarrow> real \<Rightarrow> real \<Rightarrow> real" where
  "clip x a b = min (max x a) b"

definition validate_rgb :: "point list \<Rightarrow> real \<Rightarrow> point list" where
  "validate_rgb cols tolerance =
     (let lo = 0 - tolerance;
          hi = 1 + tolerance;
          valid = (\<lambda>(r, g, b). (r > lo \<and> r < hi) \<and> (g > lo \<and> g < hi) \<and> (b > lo \<and> b < hi))
      in map (\<lambda>(r, g, b). (clip r 0 1, clip g 0 1, clip b 0 1)) (filter valid cols))"

subsection \<open>color_dict_to_colormap (source lines 173-200)\<close>

text \<open>Assignment to a key of a Python dict: an existing key keeps its place.\<close>

fun setitem :: "('k \<times> 'v) list \<Rightarrow> 'k \<Rightarrow> 'v \<Rightarrow> ('k \<times> 'v) list" where
  "setitem [] k v = [(k, v)]"
| "setitem ((k', v') # d) k v = (if k' = k then (k, v) # d else (k', v') # setitem d k v)"

definition getitem :: "(string \<times> 'v) list \<Rightarrow> string \<Rightarrow> exc + 'v" where
  "getitem d k = (case map_of d k of Some v \<Rightarrow> Inr v | None \<Rightarrow> Inl (KeyError k))"

text \<open>
  \<open>np.unique(..., axis=0)\<close>: the distinct rows, sorted lexicographically. (What numpy and
  the Colormap constructor do with no rows at all, for an empty dict, is not modelled
  beyond this.)
\<close>

definition unique_rows :: "real list list \<Rightarrow> real list list" where
  "unique_rows rows = remdups_adj (sort rows)"

text \<open>
  The comprehension \<open>{tuple(ctrl): i / (len(control_colors) - 1) for i, ctrl in
  enumerate(control_colors)}\<close>: \<open>num\<close> is \<open>len(control_colors)\<close>, \<open>i\<close> the running index,
  and the division of two Python integers raises when the divisor is zero.
\<close>

fun control2index_loop ::
  "nat \<Rightarrow> nat \<Rightarrow> real list list \<Rightarrow> (real list \<times> real) list \<Rightarrow> exc + (real list \<times> real) list" where
  "control2index_loop num i [] acc = Inr acc"
| "control2index_loop num i (ctrl # rest) acc =
     (if int num - 1 = 0 then Inl ZeroDivisionError
      else control2index_loop num (Suc i) rest
             (setitem acc ctrl (real i / real_of_int (int num - 1))))"

text \<open>
  The comprehension \<open>{label: control2index[tuple(color)] for label, color in
  colors.items()}\<close>.
\<close>

fun label_color_index_loop ::
  "(real list \<times> real) list \<Rightarrow> (int \<times> real list) list \<Rightarrow> (int \<times> real) list
     \<Rightarrow> exc + (int \<times> real) list" where
  "label_color_index_loop c2i [] acc = Inr acc"
| "label_color_index_loop c2i ((label, color) # rest) acc =
     (case map_of c2i color of
        None \<Rightarrow> Inl (KeyError ''control2index'')
      | Some ix \<Rightarrow> label_color_index_loop c2i rest (setitem acc label ix))"

definition color_dict_to_colormap ::
  "(int \<times> real list) list \<Rightarrow> exc + (colormap \<times> (int \<times> real) list)" where
  "color_dict_to_colormap cols =
     (let control_colors = unique_rows (map snd cols);
          cmap = Colormap control_colors None None None
      in case control2index_loop (length control_colors) 0 control_colors [] of
           Inl e \<Rightarrow> Inl e
         | Inr control2index \<Rightarrow>
             (case label_color_index_loop control2index cols [] of
                Inl e \<Rightarrow> Inl e
              | Inr label_color_index \<Rightarrow> Inr (cmap, label_color_index)))"

subsection \<open>_low_discrepancy (source lines 203-232)\<close>

definition phi1 :: real where "phi1 = 1.6180339887498948482"
definition phi2 :: real where "phi2 = 1.32471795724474602596"
definition phi3 :: real where "phi3 = 1.22074408460575947536"

text \<open>The seed is a float or an array of three floats; \<open>np.broadcast_to\<close> repeats a float.\<close>

datatype seed_arg = SeedFloat real | SeedArray real real real

fun broadcast_to :: "seed_arg \<Rightarrow> point" where
  "broadcast_to (SeedFloat s) = (s, s, s)"
| "broadcast_to (SeedArray s1 s2 s3) = (s1, s2, s3)"

text \<open>
  The function at \<open>dim = 3\<close>, the only dimension with which the module calls it. Point
  \<open>i\<close> is \<open>(seed + i * g) % 1\<close> in each coordinate; for numpy floats \<open>x % 1\<close> is
  \<open>x - floor x\<close>.
\<close>

definition low_discrepancy :: "int \<Rightarrow> seed_arg \<Rightarrow> point list" where
  "low_discrepancy n seed =
     (case broadcast_to seed of (s1, s2, s3) \<Rightarrow>
        map (\<lambda>i. (frac (s1 + real i * (1 / phi1)),
                  frac (s2 + real i * (1 / phi2)),
                  frac (s3 + real i * (1 / phi3))))
          [0..<nat n])"

subsection \<open>_color_random (source lines 235-268)\<close>

definition LUVMIN :: point where "LUVMIN = (0.0, -83.07790815, -134.09790293)"
definition LUVMAX :: point where "LUVMAX = (100.0, 175.01447356, 107.39905336)"
definition LABMIN :: point where "LABMIN = (0.0, -86.18302974, -107.85730021)"
definition LABMAX :: point where "LABMAX = (100.0, 98.23305386, 94.47812228)"

fun point_sub :: "point \<Rightarrow> point \<Rightarrow> point" where
  "point_sub (a1, a2, a3) (b1, b2, b3) = (a1 - b1, a2 - b2, a3 - b3)"

definition LUVRNG :: point where "LUVRNG = point_sub LUVMAX LUVMIN"
definition LABRNG :: point where "LABRNG = point_sub LABMAX LABMIN"

text \<open>\<open>random * RNG + MIN\<close> on one row.\<close>

fun scale_offset :: "point \<Rightarrow> point \<Rightarrow> point \<Rightarrow> point" where
  "scale_offset (r1, r2, r3) (m1, m2, m3) (x1, x2, x3) = (x1 * r1 + m1, x2 * r2 + m2, x3 * r3 + m3)"

text \<open>
  The conversions \<open>colorconv.lab2rgb\<close> and \<open>colorconv.luv2rgb\<close> belong to a vendored module
  that is not among the sources: they are parameters, acting on each row of the array.
\<close>

record colorconv =
  lab2rgb :: "point \<Rightarrow> point"
  luv2rgb :: "point \<Rightarrow> point"

text \<open>One pass of the loop body: the candidates of budget \<open>n * factor\<close> that are valid.\<close>

definition color_random_pass ::
  "colorconv \<Rightarrow> int \<Rightarrow> string \<Rightarrow> real \<Rightarrow> seed_arg \<Rightarrow> int \<Rightarrow> point list" where
  "color_random_pass cc n colorspace tolerance seed factor =
     (let random = low_discrepancy (n * factor) seed;
          raw_rgb =
            (if colorspace = ''luv'' then map (\<lambda>p. luv2rgb cc (scale_offset LUVRNG LUVMIN p)) random
             else if colorspace = ''rgb'' then random
             else map (\<lambda>p. lab2rgb cc (scale_offset LABRNG LABMIN p)) random)
      in validate_rgb raw_rgb tolerance)"

text \<open>The slice \<open>rgb[:n]\<close> of Python.\<close>

definition slice_to :: "'a list \<Rightarrow> int \<Rightarrow> 'a list" where
  "slice_to xs n = (if 0 \<le> n then take (nat n) xs else take (nat (int (length xs) + n)) xs)"

definition expand_factor :: int where
  "expand_factor = 2"

text \<open>The loop \<open>while len(rgb) < n\<close>, with the loop variables \<open>factor\<close> and \<open>rgb\<close>.\<close>

partial_function (option) color_random_loop ::
  "colorconv \<Rightarrow> int \<Rightarrow> string \<Rightarrow> real \<Rightarrow> seed_arg \<Rightarrow> int \<Rightarrow> point list \<Rightarrow> point list option" where
  "color_random_loop cc n colorspace tolerance seed factor rgb =
     (if int (length rgb) < n then
        color_random_loop cc n colorspace tolerance seed (factor * expand_factor)
          (color_random_pass cc n colorspace tolerance seed factor)
      else Some (slice_to rgb n))"

definition color_random ::
  "colorconv \<Rightarrow> int \<Rightarrow> string \<Rightarrow> real \<Rightarrow> seed_arg \<Rightarrow> point list option" where
  "color_random cc n colorspace tolerance seed =
     color_random_loop cc n colorspace tolerance seed 6 []"

subsection \<open>label_colormap (source lines 271-305)\<close>



subsection \<open>The registry (source lines 32-45 and 308-351)\<close>

text \<open>
  The collaborators that are not among the sources: the catalogs of vispy (\<open>get_colormaps\<close>,
  \<open>get_colormap\<close>) and of the vendored matplotlib module (\<open>getattr(cm, name)\<close>, sampled at
  256 points), the construction \<open>Colormap(**colormap)\<close> from the keyword arguments of a
  dict, and the comparison \<open>colormap == val\<close> of a vispy colormap with a registry value.
\<close>

record env =
  vispy_cmaps :: "string \<Rightarrow> vispy_colormap option"
  mpl_cm :: "string \<Rightarrow> real list list option"
  Colormap_kwargs :: "(string \<times> pyobj) list \<Rightarrow> exc + colormap"
  vispy_eq :: "vispy_colormap \<Rightarrow> colormap \<Rightarrow> bool"

type_synonym registry = "(string \<times> colormap) list"

definition vispy_or_mpl_colormap :: "env \<Rightarrow> string \<Rightarrow> exc + colormap" where
  "vispy_or_mpl_colormap e nm =
     (case vispy_cmaps e nm of
        Some cmap \<Rightarrow> convert_vispy_colormap (VispyColormap cmap) nm
      | None \<Rightarrow>
          (case mpl_cm e nm of
             None \<Rightarrow> Inl (KeyError (''Colormap '' @ nm @ '' not found in either vispy or matplotlib.''))
           | Some mpl_colors \<Rightarrow> Inr (Colormap mpl_colors (Some nm) None None)))"

text \<open>\<open>dict.update\<close>, and a dict built from a sequence of items.\<close>

definition update :: "('k \<times> 'v) list \<Rightarrow> ('k \<times> 'v) list \<Rightarrow> ('k \<times> 'v) list" where
  "update d items = foldl (\<lambda>acc (k, v). setitem acc k v) d items"

definition dict_of :: "('k \<times> 'v) list \<Rightarrow> ('k \<times> 'v) list" where
  "dict_of items = update [] items"

definition primary_color_names :: "string list" where
  "primary_color_names = [''red'', ''green'', ''blue'', ''cyan'', ''magenta'', ''yellow'']"

definition primary_colors :: "real list list" where
  "primary_colors = [[1, 0, 0], [0, 1, 0], [0, 0, 1], [0, 1, 1], [1, 0, 1], [1, 1, 0]]"

definition SIMPLE_COLORMAPS :: registry where
  "SIMPLE_COLORMAPS =
     dict_of (map (\<lambda>(nm, color). (nm, Colormap [[0.0, 0.0, 0.0], color] (Some nm) None None))
                (zip primary_color_names primary_colors))"

text \<open>\<open>bopd\<close> (module bop_colors) is not among the sources: it is a parameter.\<close>

definition BOP_COLORMAPS :: "(string \<times> real list list) list \<Rightarrow> registry" where
  "BOP_COLORMAPS bopd = dict_of (map (\<lambda>(k, v). (k, Colormap v (Some k) None None)) bopd)"

text \<open>
  \<open>{k: vispy_or_mpl_colormap(k) for k in matplotlib_colormaps}\<close>; the list of names is read
  from a file that is not among the sources, so it is a parameter.
\<close>

fun catalog_loop :: "env \<Rightarrow> string list \<Rightarrow> registry \<Rightarrow> exc + registry" where
  "catalog_loop e [] acc = Inr acc"
| "catalog_loop e (k # ks) acc =
     (case vispy_or_mpl_colormap e k of
        Inl err \<Rightarrow> Inl err
      | Inr cmap \<Rightarrow> catalog_loop e ks (setitem acc k cmap))"

definition ALL_COLORMAPS ::
  "env \<Rightarrow> string list \<Rightarrow> (string \<times> real list list) list \<Rightarrow> exc + registry" where
  "ALL_COLORMAPS e matplotlib_colormaps bopd =
     (case catalog_loop e matplotlib_colormaps [] of
        Inl err \<Rightarrow> Inl err
      | Inr d \<Rightarrow> Inr (update (update d SIMPLE_COLORMAPS) (BOP_COLORMAPS bopd)))"

text \<open>
  \<open>dict(sorted(ALL_COLORMAPS.items()))\<close>: the keys of a dict are distinct, so sorting the
  items sorts them by key; Python compares strings by code point.
\<close>

definition AVAILABLE_COLORMAPS ::
  "env \<Rightarrow> string list \<Rightarrow> (string \<times> real list list) list \<Rightarrow> exc + registry" where
  "AVAILABLE_COLORMAPS e matplotlib_colormaps bopd =
     (case ALL_COLORMAPS e matplotlib_colormaps bopd of
        Inl err \<Rightarrow> Inl err
      | Inr d \<Rightarrow> Inr (dict_of (sort_key fst d)))"

subsection \<open>ensure_colormap (source lines 384-505)\<close>

text \<open>
  The function reads and writes the module's dict \<open>AVAILABLE_COLORMAPS\<close>: the model takes the
  registry and returns, with the result or the exception, the registry as the call leaves
  it. Colormap objects are modelled by value.
\<close>

text \<open>The final \<open>return AVAILABLE_COLORMAPS[name]\<close>.\<close>

definition return_entry :: "registry \<Rightarrow> string \<Rightarrow> (exc + colormap) \<times> registry" where
  "return_entry available nm = (getitem available nm, available)"

text \<open>The search loop of the vispy branch: the key of the first value equal to the colormap.\<close>

fun find_equal :: "(vispy_colormap \<Rightarrow> colormap \<Rightarrow> bool) \<Rightarrow> vispy_colormap \<Rightarrow> registry \<Rightarrow> string option" where
  "find_equal eq v [] = None"
| "find_equal eq v ((key, val) # rest) = (if eq v val then Some key else find_equal eq v rest)"

text \<open>\<open>if not name\<close>: true for \<open>None\<close> and for the empty string.\<close>

fun not_name :: "string option \<Rightarrow> bool" where
  "not_name None = True"
| "not_name (Some k) = (k = [])"

text \<open>
  The step shared by the tuple and the dict branch: a vispy colormap is converted, any
  other value gets its \<open>name\<close> attribute set. Both callers have checked before that the
  value is a vispy colormap or a Colormap, so the last case is never reached.
\<close>

definition convert_or_rename :: "pyobj \<Rightarrow> string \<Rightarrow> exc + colormap" where
  "convert_or_rename cmap nm =
     (if is_VispyColormap cmap then convert_vispy_colormap cmap nm
      else (case cmap of
              NapariColormap c \<Rightarrow> Inr (c\<lparr>name := nm\<rparr>)
            | _ \<Rightarrow> Inl (TypeError ''no attribute name'')))"

text \<open>The loop of the dict branch, which converts or renames every value.\<close>

fun dict_convert_loop :: "(string \<times> pyobj) list \<Rightarrow> exc + registry" where
  "dict_convert_loop [] = Inr []"
| "dict_convert_loop ((key, cmap) # rest) =
     (case convert_or_rename cmap key of
        Inl err \<Rightarrow> Inl err
      | Inr converted \<Rightarrow>
          (case dict_convert_loop rest of
             Inl err \<Rightarrow> Inl err
           | Inr others \<Rightarrow> Inr ((key, converted) # others)))"

definition ensure_colormap :: "env \<Rightarrow> registry \<Rightarrow> pyobj \<Rightarrow> (exc + colormap) \<times> registry" where
  "ensure_colormap e available cmap_arg =
     (case cmap_arg of
        Str nm \<Rightarrow>
          (if nm \<notin> set (map fst available) then
             (case vispy_or_mpl_colormap e nm of
                Inl err \<Rightarrow> (Inl err, available)
              | Inr cmap \<Rightarrow> return_entry (setitem available nm cmap) nm)
           else return_entry available nm)
      | NapariColormap c \<Rightarrow> return_entry (setitem available (name c) c) (name c)
      | VispyColormap v \<Rightarrow>
          (let found = find_equal (vispy_eq e) v available;
               nm = (if not_name found
                     then increment_unnamed_colormap (map fst available) ''[unnamed colormap]''
                     else the found)
           in case convert_vispy_colormap cmap_arg nm of
                Inl err \<Rightarrow> (Inl err, available)
              | Inr cmap \<Rightarrow> return_entry (setitem available nm cmap) nm)
      | Tuple xs \<Rightarrow>
          (if \<not> (length xs = 2
                 \<and> (is_VispyColormap (xs ! 1) \<or> is_NapariColormap (xs ! 1))
                 \<and> is_Str (xs ! 0))
           then (Inl (TypeError (''When providing a tuple as a colormap argument, the first ''
                   @ ''element must be a string and the second a Colormap instance'')), available)
           else
             (case xs ! 0 of
                Str nm \<Rightarrow>
                  (case convert_or_rename (xs ! 1) nm of
                     Inl err \<Rightarrow> (Inl err, available)
                   | Inr cmap \<Rightarrow> return_entry (setitem available nm cmap) nm)
              | _ \<Rightarrow> (Inl (TypeError ''the first element is not a string''), available)))
      | Dict d \<Rightarrow>
          (if ''colors'' \<in> set (map fst d)
              \<and> \<not> (case map_of d ''colors'' of
                      Some x \<Rightarrow> is_VispyColormap x \<or> is_NapariColormap x
                    | None \<Rightarrow> False)
           then
             (case Colormap_kwargs e d of
                Inl err \<Rightarrow> (Inl err, available)
              | Inr cmap \<Rightarrow> return_entry (setitem available (name cmap) cmap) (name cmap))
           else if \<not> list_all (\<lambda>i. is_VispyColormap i \<or> is_NapariColormap i) (map snd d)
           then (Inl (TypeError (''When providing a dict as a colormap, ''
                   @ ''all values must be Colormap instances'')), available)
           else
             (case dict_convert_loop d of
                Inl err \<Rightarrow> (Inl err, available)
              | Inr converted \<Rightarrow>
                  (let available' = update available converted in
                   if length d = 1 then return_entry available' (fst (hd d))
                   else if length d > 1 then return_entry available' (fst (hd d))
                   else (Inl (ValueError ''Received an empty dict as a colormap argument.''),
                         available'))))
      | Other ty \<Rightarrow>
          (Inl (TypeError (''invalid type for colormap: '' @ ty
             @ ''. Must be a {str, tuple, dict, napari.utils.Colormap, vispy.colors.Colormap}'')),
           available))"

text \<open>A sequence of calls, each on the registry that the call before has left.\<close>

definition ensure_colormaps :: "env \<Rightarrow> registry \<Rightarrow> pyobj list \<Rightarrow> registry" where
  "ensure_colormaps e available cmap_args =
     foldl (\<lambda>reg cmap_arg. snd (ensure_colormap e reg cmap_arg)) available cmap_args"

subsection \<open>Auxiliary definitions of the proofs\<close>

text \<open>Reading a decimal string back, to show that \<open>str_nat\<close> is injective.\<close>

definition digit_val :: "char \<Rightarrow> nat" where
  "digit_val c = (if c = CHR ''0'' then 0 else if c = CHR ''1'' then 1 else if c = CHR ''2'' then 2
     else if c = CHR ''3'' then 3 else if c = CHR ''4'' then 4 else if c = CHR ''5'' then 5
     else if c = CHR ''6'' then 6 else if c = CHR ''7'' then 7 else if c = CHR ''8'' then 8 else 9)"

definition nat_of_str :: "string \<Rightarrow> nat" where
  "nat_of_str s = foldl (\<lambda>a c. 10 * a + digit_val c) 0 s"

text \<open>
  The pass with budget \<open>n * 6 * 2 ^ k\<close> yields at least \<open>n\<close> valid colors; all channels of a
  color lie in [0, 1]; the multiples of a step that cannot be integers within one block of
  six consecutive indices.
\<close>

definition pass_suffices ::
  "colorconv \<Rightarrow> int \<Rightarrow> string \<Rightarrow> real \<Rightarrow> seed_arg \<Rightarrow> nat \<Rightarrow> bool" where
  "pass_suffices cc n colorspace tolerance seed k =
     (n \<le> int (length (color_random_pass cc n colorspace tolerance seed (6 * 2 ^ k))))"

definition in_unit :: "point \<Rightarrow> bool" where
  "in_unit p = (case p of (r, g, b) \<Rightarrow> 0 \<le> r \<and> r \<le> 1 \<and> 0 \<le> g \<and> g \<le> 1 \<and> 0 \<le> b \<and> b \<le> 1)"


subsection \<open>Concrete collaborators and inputs of the examples\<close>

text \<open>
  An environment with empty catalogs, whose comparison of a vispy colormap with a registry
  value is never true.
\<close>

definition empty_env :: env where
  "empty_env = \<lparr>vispy_cmaps = (\<lambda>nm. None), mpl_cm = (\<lambda>nm. None),
     Colormap_kwargs = (\<lambda>kwargs. Inl (TypeError ''Colormap'')), vispy_eq = (\<lambda>v c. False)\<rparr>"

text \<open>
  Modelled from the spec: the comparison \<open>colormap == val\<close> as structural equality (the spec
  has the registry search its values "for structural equality" with the foreign colormap).
  A registry value is equal to a vispy colormap when it is what the conversion of the vispy
  colormap gives under the value's own name.
\<close>

definition structural_eq :: "vispy_colormap \<Rightarrow> colormap \<Rightarrow> bool" where
  "structural_eq v c = (convert_vispy_colormap (VispyColormap v) (name c) = Inr c)"

definition structural_env :: env where
  "structural_env = empty_env\<lparr>vispy_eq := structural_eq\<rparr>"

definition gray_vispy :: vispy_colormap where
  "gray_vispy = \<lparr>rgba = [[0, 0, 0, 1], [1, 1, 1, 1]], vispy_controls = None,
     vispy_interpolation = None\<rparr>"

text \<open>The Colormap with the colors of \<open>gray_vispy\<close> and the empty string as its name.\<close>

definition gray_unnamed :: colormap where
  "gray_unnamed = Colormap [[0, 0, 0, 1], [1, 1, 1, 1]] (Some []) (Some []) (Some ''linear'')"

definition gray_custom :: colormap where
  "gray_custom = Colormap [[0, 0, 0, 1], [1, 1, 1, 1]] (Some ''custom'') None None"

text \<open>The name of the Colormap that a call returned.\<close>

definition resolved_name :: "(exc + colormap) \<times> registry \<Rightarrow> exc + string" where
  "resolved_name r = map_sum id name (fst r)"

text \<open>A stand-in for the color conversions that maps every point to mid-gray.\<close>

definition gray_conv :: colorconv where
  "gray_conv = \<lparr>lab2rgb = (\<lambda>p. (1/2, 1/2, 1/2)), luv2rgb = (\<lambda>p. (1/2, 1/2, 1/2))\<rparr>"

section \<open>Properties\<close>

subsection \<open>low_discrepancy_image: the range of the outputs\<close>






subsection \<open>increment_unnamed_colormap: freshness of the generated names\<close>

lemma digit_val_digit_char: "d < 10 \<Longrightarrow> digit_val (digit_char d) = d"
proof -
  assume "d < 10"
  then have "d \<in> {0, 1, 2, 3, 4, 5, 6, 7, 8, 9}" by auto
  then show ?thesis
    by (auto simp: digit_val_def digit_char_def)
qed

lemma nat_of_str_str_nat: "nat_of_str (str_nat n) = n"
proof (induction n rule: str_nat.induct)
  case (1 n)
  show ?case
  proof (cases "n < 10")
    case True
    then show ?thesis
      by (subst str_nat.simps) (simp add: nat_of_str_def digit_val_digit_char)
  next
    case False
    then have "nat_of_str (str_nat (n div 10)) = n div 10" using 1 by simp
    then show ?thesis using False
      by (subst str_nat.simps) (simp add: nat_of_str_def digit_val_digit_char)
  qed
qed

lemma str_nat_inj: "str_nat i = str_nat j \<Longrightarrow> i = j"
  by (metis nat_of_str_str_nat)

lemma unnamed_inj: "unnamed i = unnamed j \<Longrightarrow> i = j"
  by (simp add: unnamed_def str_nat_inj)

lemma unnamed_startswith: "startswith (unnamed i) ''[unnamed colormap''"
  by (simp add: unnamed_def startswith_def)

lemma increment_eq_unnamed:
  "increment_unnamed_colormap existing ''[unnamed colormap]'' = unnamed (count_unnamed existing)"
  by (simp add: increment_unnamed_colormap_def unnamed_def count_unnamed_def)

lemma auto_named_fresh:
  assumes "auto_named existing"
  shows "unnamed (count_unnamed existing) \<notin> set existing"
proof
  assume "unnamed (count_unnamed existing) \<in> set existing"
  with assms have "unnamed (count_unnamed existing) \<in> unnamed ` {..<count_unnamed existing}"
    by (auto simp: auto_named_def list_all_iff unnamed_startswith)
  then obtain i where "i < count_unnamed existing" "unnamed (count_unnamed existing) = unnamed i"
    by auto
  then show False using unnamed_inj by fastforce
qed

lemma count_unnamed_add: "count_unnamed (add_unnamed existing) = Suc (count_unnamed existing)"
  by (simp add: add_unnamed_def count_unnamed_def increment_eq_unnamed unnamed_startswith
      del: filter.simps)

lemma auto_named_add:
  assumes "auto_named existing"
  shows "auto_named (add_unnamed existing)"
  using assms unfolding auto_named_def list_all_iff count_unnamed_add
  by (auto simp: add_unnamed_def increment_eq_unnamed lessThan_Suc)

lemma auto_named_funpow: "auto_named existing \<Longrightarrow> auto_named ((add_unnamed ^^ m) existing)"
  by (induction m) (simp_all add: auto_named_add)

lemma no_prefix_auto_named:
  "\<forall>n \<in> set existing. \<not> startswith n ''[unnamed colormap'' \<Longrightarrow> auto_named existing"
  by (simp add: auto_named_def list_all_iff)

text \<open>
  Claim C4, as stated, fails: the name is built from the number of existing names with the
  prefix, so a list that holds \<open>[unnamed colormap 1]\<close> alone gets that very name back.
\<close>

theorem increment_unnamed_colormap_collides:
  "increment_unnamed_colormap [''[unnamed colormap 1]''] ''[unnamed colormap]''
     \<in> set [''[unnamed colormap 1]'']"
  by (simp add: increment_unnamed_colormap_def startswith_def str_nat.simps digit_char_def)

text \<open>
  Claim C4, amended: the returned name is \<open>[unnamed colormap k]\<close> for the number \<open>k\<close> of
  existing names with the prefix \<open>[unnamed colormap\<close>. It is not among the existing names
  whenever every existing name with the prefix is \<open>[unnamed colormap i]\<close> for some \<open>i < k\<close>
  (in particular when no existing name has the prefix). From such a list, after any number
  \<open>m\<close> of successive calls that each add the returned name, the next returned name is fresh
  again.
\<close>

theorem increment_unnamed_colormap_fresh:
  assumes "auto_named existing"
  shows "increment_unnamed_colormap ((add_unnamed ^^ m) existing) ''[unnamed colormap]''
           = unnamed (count_unnamed existing + m)
         \<and> increment_unnamed_colormap ((add_unnamed ^^ m) existing) ''[unnamed colormap]''
             \<notin> set ((add_unnamed ^^ m) existing)"
proof -
  have "count_unnamed ((add_unnamed ^^ m) existing) = count_unnamed existing + m"
    by (induction m) (simp_all add: count_unnamed_add)
  then show ?thesis
    using auto_named_fresh [OF auto_named_funpow [OF assms, of m]]
    by (simp add: increment_eq_unnamed)
qed

text \<open>The theorem at a list with one generated name, and two successive calls.\<close>

theorem increment_unnamed_colormap_fresh_witness:
  "auto_named [''red'', ''[unnamed colormap 0]''] \<and>
   (add_unnamed ^^ 2) [''red'', ''[unnamed colormap 0]''] =
     [''red'', ''[unnamed colormap 0]'', ''[unnamed colormap 1]'', ''[unnamed colormap 2]''] \<and>
   increment_unnamed_colormap ((add_unnamed ^^ 2) [''red'', ''[unnamed colormap 0]''])
       ''[unnamed colormap]''
     \<notin> set ((add_unnamed ^^ 2) [''red'', ''[unnamed colormap 0]''])"
proof -
  have a: "auto_named [''red'', ''[unnamed colormap 0]'']"
    by (simp add: auto_named_def count_unnamed_def startswith_def unnamed_def str_nat.simps
        digit_char_def lessThan_Suc)
  have b: "(add_unnamed ^^ 2) [''red'', ''[unnamed colormap 0]''] =
     [''red'', ''[unnamed colormap 0]'', ''[unnamed colormap 1]'', ''[unnamed colormap 2]'']"
    by (simp add: numeral_2_eq_2 add_unnamed_def increment_unnamed_colormap_def startswith_def
        str_nat.simps digit_char_def)
  have c: "increment_unnamed_colormap ((add_unnamed ^^ 2) [''red'', ''[unnamed colormap 0]''])
             ''[unnamed colormap]''
           \<notin> set ((add_unnamed ^^ 2) [''red'', ''[unnamed colormap 0]''])"
    using increment_unnamed_colormap_fresh [OF a, of 2] by (rule conjunct2)
  show ?thesis using a b c by blast
qed

subsection \<open>Dicts: assignment and update\<close>

lemma map_of_setitem: "map_of (setitem d k v) k = Some v"
  by (induction d k v rule: setitem.induct) auto

lemma keys_setitem:
  "map fst (setitem d k v) = (if k \<in> set (map fst d) then map fst d else map fst d @ [k])"
  by (induction d k v rule: setitem.induct) auto

lemma prefix_setitem: "prefix (map fst d) (map fst (setitem d k v))"
  by (simp add: keys_setitem)

lemma update_Nil [simp]: "update d [] = d"
  by (simp add: update_def)

lemma update_Cons: "update d ((k, v) # items) = update (setitem d k v) items"
  by (simp add: update_def)

lemma prefix_update: "prefix (map fst d) (map fst (update d items))"
proof (induction items arbitrary: d)
  case Nil
  then show ?case by simp
next
  case (Cons a items)
  obtain k v where a: "a = (k, v)" by (cases a)
  have "prefix (map fst d) (map fst (setitem d k v))" by (rule prefix_setitem)
  moreover have "prefix (map fst (setitem d k v)) (map fst (update (setitem d k v) items))"
    by (rule Cons.IH)
  ultimately show ?case unfolding a update_Cons by (rule prefix_order.trans)
qed



lemma distinct_setitem: "distinct (map fst d) \<Longrightarrow> distinct (map fst (setitem d k v))"
  by (simp add: keys_setitem)

lemma distinct_update: "distinct (map fst d) \<Longrightarrow> distinct (map fst (update d items))"
proof (induction items arbitrary: d)
  case Nil
  then show ?case by simp
next
  case (Cons a items)
  obtain k v where a: "a = (k, v)" by (cases a)
  show ?case unfolding a update_Cons using Cons by (simp add: distinct_setitem)
qed

lemma update_append:
  "distinct (map fst (acc @ items)) \<Longrightarrow> update acc items = acc @ items"
proof (induction items arbitrary: acc)
  case Nil
  then show ?case by simp
next
  case (Cons a items)
  obtain k v where a: "a = (k, v)" by (cases a)
  have notin: "k \<notin> set (map fst acc)" using Cons.prems by (auto simp: a)
  have set1: "setitem acc k v = acc @ [(k, v)]" using notin
    by (induction acc) auto
  have "update (acc @ [(k, v)]) items = (acc @ [(k, v)]) @ items"
    using Cons.prems by (intro Cons.IH) (simp add: a)
  then show ?case unfolding a update_Cons set1 by simp
qed

lemma dict_of_distinct: "distinct (map fst items) \<Longrightarrow> dict_of items = items"
  using update_append [of "[]" items] by (simp add: dict_of_def)



lemma snd_return_entry [simp]: "snd (return_entry d k) = d"
  by (simp add: return_entry_def)


subsection \<open>ensure_colormap: the empty dict\<close>

text \<open>
  Claim C9: for every registry, \<open>ensure_colormap\<close> called with an empty dict raises the
  ValueError of the dict branch (the invalid-argument error, and not the TypeError for an
  unsupported type at the end of the function); it returns no Colormap and leaves the
  registry as it was.
\<close>

theorem ensure_colormap_empty_dict:
  "ensure_colormap e available (Dict []) =
     (Inl (ValueError ''Received an empty dict as a colormap argument.''), available)"
  by (simp add: ensure_colormap_def)

subsection \<open>ensure_colormap: a failed call leaves the registry unchanged\<close>



subsection \<open>The order of the registry's names\<close>

lemma ensure_colormap_keys_prefix:
  "prefix (map fst available) (map fst (snd (ensure_colormap e available cmap_arg)))"
proof (cases cmap_arg)
  case (Str nm)
  then show ?thesis
    by (auto simp: ensure_colormap_def keys_setitem split: sum.splits)
next
  case (NapariColormap c)
  then show ?thesis by (simp add: ensure_colormap_def keys_setitem)
next
  case (VispyColormap v)
  then show ?thesis
    by (auto simp: ensure_colormap_def Let_def keys_setitem split: sum.splits)
next
  case (Tuple xs)
  then show ?thesis
    by (auto simp: ensure_colormap_def keys_setitem split: sum.splits pyobj.splits)
next
  case (Dict d)
  then show ?thesis
    by (auto simp: ensure_colormap_def Let_def keys_setitem prefix_update split: sum.splits)
next
  case (Other ty)
  then show ?thesis by (simp add: ensure_colormap_def)
qed

lemma ensure_colormaps_keys_prefix:
  "prefix (map fst available) (map fst (ensure_colormaps e available cmap_args))"
  unfolding ensure_colormaps_def
proof (induction cmap_args arbitrary: available)
  case Nil
  then show ?case by simp
next
  case (Cons a cmap_args)
  have "prefix (map fst available) (map fst (snd (ensure_colormap e available a)))"
    by (rule ensure_colormap_keys_prefix)
  then show ?case using Cons [of "snd (ensure_colormap e available a)"]
    by (auto intro: prefix_order.trans)
qed

lemma distinct_catalog_loop:
  "catalog_loop e ks acc = Inr d \<Longrightarrow> distinct (map fst acc) \<Longrightarrow> distinct (map fst d)"
  by (induction ks arbitrary: acc) (auto simp: distinct_setitem split: sum.splits)

lemma AVAILABLE_COLORMAPS_sorted:
  assumes "AVAILABLE_COLORMAPS e matplotlib_colormaps bopd = Inr reg"
  shows "sorted (map fst reg)"
proof -
  from assms obtain d where d: "ALL_COLORMAPS e matplotlib_colormaps bopd = Inr d"
    and reg: "reg = dict_of (sort_key fst d)"
    by (auto simp: AVAILABLE_COLORMAPS_def split: sum.splits)
  from d obtain d0 where d0: "catalog_loop e matplotlib_colormaps [] = Inr d0"
    and dd: "d = update (update d0 SIMPLE_COLORMAPS) (BOP_COLORMAPS bopd)"
    by (auto simp: ALL_COLORMAPS_def split: sum.splits)
  have "distinct (map fst d0)" using distinct_catalog_loop [OF d0] by simp
  then have "distinct (map fst d)" unfolding dd by (intro distinct_update)
  then have "distinct (map fst (sort_key fst d))"
    by (simp add: distinct_map inj_on_def)
  then have "reg = sort_key fst d" unfolding reg by (rule dict_of_distinct)
  then show ?thesis by simp
qed

lemma simple_registry_names:
  "AVAILABLE_COLORMAPS empty_env [] [] = Inr reg \<Longrightarrow>
   map fst reg = [''blue'', ''cyan'', ''green'', ''magenta'', ''red'', ''yellow'']"
  by (auto simp: AVAILABLE_COLORMAPS_def ALL_COLORMAPS_def SIMPLE_COLORMAPS_def
      BOP_COLORMAPS_def dict_of_def update_def primary_color_names_def primary_colors_def
      Colormap_def)

lemma simple_registry_exists: "\<exists>reg. AVAILABLE_COLORMAPS empty_env [] [] = Inr reg"
  by (simp add: AVAILABLE_COLORMAPS_def ALL_COLORMAPS_def)

text \<open>
  Claim C7, as stated, fails. On the registry of the six primary colormaps that the source
  lists (no matplotlib names, no bop colormaps), whose names are sorted, the resolution of a
  Colormap named \<open>custom\<close> puts the new name last, after \<open>yellow\<close>.
\<close>

theorem registry_names_not_sorted_after_resolve:
  "case AVAILABLE_COLORMAPS empty_env [] [] of
     Inl err \<Rightarrow> False
   | Inr reg \<Rightarrow>
       sorted (map fst reg) \<and>
       map fst (snd (ensure_colormap empty_env reg (NapariColormap gray_custom))) =
         [''blue'', ''cyan'', ''green'', ''magenta'', ''red'', ''yellow'', ''custom''] \<and>
       \<not> sorted (map fst (snd (ensure_colormap empty_env reg (NapariColormap gray_custom))))"
  by (simp add: AVAILABLE_COLORMAPS_def ALL_COLORMAPS_def SIMPLE_COLORMAPS_def
      BOP_COLORMAPS_def dict_of_def update_def primary_color_names_def primary_colors_def
      Colormap_def ensure_colormap_def gray_custom_def return_entry_def)

text \<open>
  Claim C7, amended: the names of the initial registry are alphabetically sorted. A call of
  \<open>ensure_colormap\<close>, and so every sequence of calls, keeps every existing name at its
  position and puts new names after them, in the order of their insertion (the dict is
  never sorted again); resolving a Colormap whose name is new appends exactly that name.
\<close>

theorem registry_names_insertion_ordered:
  "(AVAILABLE_COLORMAPS e matplotlib_colormaps bopd = Inr reg \<longrightarrow> sorted (map fst reg)) \<and>
   prefix (map fst available) (map fst (snd (ensure_colormap e available cmap_arg))) \<and>
   prefix (map fst available) (map fst (ensure_colormaps e available cmap_args)) \<and>
   map fst (snd (ensure_colormap e available (NapariColormap c))) =
     (if name c \<in> set (map fst available) then map fst available
      else map fst available @ [name c])"
  using AVAILABLE_COLORMAPS_sorted ensure_colormap_keys_prefix ensure_colormaps_keys_prefix
  by (simp add: ensure_colormap_def keys_setitem)

text \<open>
  The theorem at the registry of the six primary colormaps and the resolution of a vispy
  colormap.
\<close>

theorem registry_names_insertion_ordered_witness:
  "\<exists>reg. AVAILABLE_COLORMAPS empty_env [] [] = Inr reg \<and>
     map fst reg = [''blue'', ''cyan'', ''green'', ''magenta'', ''red'', ''yellow''] \<and>
     sorted (map fst reg) \<and>
     prefix (map fst reg)
       (map fst (snd (ensure_colormap empty_env reg (VispyColormap gray_vispy))))"
proof -
  obtain reg where reg: "AVAILABLE_COLORMAPS empty_env [] [] = Inr reg"
    using simple_registry_exists by blast
  have "sorted (map fst reg)"
    using registry_names_insertion_ordered
      [of empty_env "[]" "[]" reg reg "VispyColormap gray_vispy" "[]" gray_custom] reg
    by blast
  moreover have "prefix (map fst reg)
       (map fst (snd (ensure_colormap empty_env reg (VispyColormap gray_vispy))))"
    using registry_names_insertion_ordered
      [of empty_env "[]" "[]" reg reg "VispyColormap gray_vispy" "[]" gray_custom]
    by blast
  ultimately have "AVAILABLE_COLORMAPS empty_env [] [] = Inr reg \<and>
     map fst reg = [''blue'', ''cyan'', ''green'', ''magenta'', ''red'', ''yellow''] \<and>
     sorted (map fst reg) \<and>
     prefix (map fst reg)
       (map fst (snd (ensure_colormap empty_env reg (VispyColormap gray_vispy))))"
    using reg simple_registry_names [OF reg] by (intro conjI) assumption+
  then show ?thesis by (rule exI)
qed

subsection \<open>ensure_colormap: vispy colormaps that are equal to a registry value\<close>

lemma find_equal_same: "eq v2 = eq v1 \<Longrightarrow> find_equal eq v2 d = find_equal eq v1 d"
  by (induction d) auto

lemma find_equal_setitem:
  "find_equal eq v d = None \<or> find_equal eq v d = Some k \<Longrightarrow> eq v c \<Longrightarrow>
   find_equal eq v (setitem d k c) = Some k"
  by (induction d k c rule: setitem.induct) (auto split: if_splits)

lemma increment_nonempty: "increment_unnamed_colormap existing ''[unnamed colormap]'' \<noteq> []"
  by (simp add: increment_unnamed_colormap_def)

text \<open>
  What the vispy branch does achieve. Let the comparison treat \<open>v1\<close> and \<open>v2\<close> alike and
  find \<open>v2\<close> equal to every conversion of \<open>v1\<close>. Unless the search for \<open>v1\<close> stops at an entry
  whose key is the empty string, the two resolutions return the same name.
\<close>

lemma ensure_colormap_vispy_dedup:
  assumes same: "vispy_eq e v2 = vispy_eq e v1"
    and conv: "\<And>nm c. convert_vispy_colormap (VispyColormap v1) nm = Inr c \<Longrightarrow> vispy_eq e v2 c"
    and slip: "find_equal (vispy_eq e) v1 available \<noteq> Some []"
  shows "\<exists>c1 c2. fst (ensure_colormap e available (VispyColormap v1)) = Inr c1 \<and>
           fst (ensure_colormap e (snd (ensure_colormap e available (VispyColormap v1)))
                  (VispyColormap v2)) = Inr c2 \<and>
           name c2 = name c1"
proof -
  define nm where "nm = (if not_name (find_equal (vispy_eq e) v1 available)
                     then increment_unnamed_colormap (map fst available) ''[unnamed colormap]''
                     else the (find_equal (vispy_eq e) v1 available))"
  define c1 where "c1 = Colormap (rgba v1) (Some nm)
      (Some (case vispy_controls v1 of Some c \<Rightarrow> c | None \<Rightarrow> []))
      (Some (case vispy_interpolation v1 of Some i \<Rightarrow> i | None \<Rightarrow> ''linear''))"
  have c1: "convert_vispy_colormap (VispyColormap v1) nm = Inr c1"
    by (simp add: convert_vispy_colormap_def c1_def)
  have nm_ne: "nm \<noteq> []"
    using slip by (cases "find_equal (vispy_eq e) v1 available")
      (auto simp: nm_def increment_nonempty)
  have first: "ensure_colormap e available (VispyColormap v1)
                 = (Inr c1, setitem available nm c1)"
    using c1 by (simp add: ensure_colormap_def Let_def nm_def [symmetric] return_entry_def
        getitem_def map_of_setitem)
  have cases: "find_equal (vispy_eq e) v2 available = None \<or>
               find_equal (vispy_eq e) v2 available = Some nm"
    using slip unfolding find_equal_same [OF same]
    by (cases "find_equal (vispy_eq e) v1 available") (auto simp: nm_def)
  have found2: "find_equal (vispy_eq e) v2 (setitem available nm c1) = Some nm"
    using cases conv [OF c1] by (rule find_equal_setitem)
  define c2 where "c2 = Colormap (rgba v2) (Some nm)
      (Some (case vispy_controls v2 of Some c \<Rightarrow> c | None \<Rightarrow> []))
      (Some (case vispy_interpolation v2 of Some i \<Rightarrow> i | None \<Rightarrow> ''linear''))"
  have second: "ensure_colormap e (setitem available nm c1) (VispyColormap v2)
                 = (Inr c2, setitem (setitem available nm c1) nm c2)"
    using nm_ne by (simp add: ensure_colormap_def Let_def found2 return_entry_def
        getitem_def map_of_setitem convert_vispy_colormap_def c2_def)
  have "name c2 = name c1" by (simp add: c1_def c2_def Colormap_def)
  then show ?thesis using first second by simp
qed

text \<open>With structural equality as the comparison, the two vispy colormaps may be the same.\<close>

lemma structural_env_dedup:
  assumes "find_equal structural_eq v available \<noteq> Some []"
  shows "\<exists>c1 c2. fst (ensure_colormap structural_env available (VispyColormap v)) = Inr c1 \<and>
           fst (ensure_colormap structural_env
                  (snd (ensure_colormap structural_env available (VispyColormap v)))
                  (VispyColormap v)) = Inr c2 \<and>
           name c2 = name c1"
proof (rule ensure_colormap_vispy_dedup)
  show "vispy_eq structural_env v = vispy_eq structural_env v" ..
  show "vispy_eq structural_env v c"
    if "convert_vispy_colormap (VispyColormap v) nm = Inr c" for nm c
    using that
    by (auto simp: structural_env_def empty_env_def structural_eq_def
        convert_vispy_colormap_def Colormap_def)
  show "find_equal (vispy_eq structural_env) v available \<noteq> Some []"
    using assms by (simp add: structural_env_def empty_env_def)
qed

text \<open>
  Claim C5 names a property that the code misses at one input. The registry holds, under
  the empty string as its name, a Colormap that is equal to the vispy colormap
  \<open>gray_vispy\<close> (registered by \<open>ensure_colormap\<close> itself, first line). The search finds that
  entry, but \<open>if not name\<close> takes the empty key for "not found": the first resolution of
  \<open>gray_vispy\<close> creates \<open>[unnamed colormap 0]\<close>, and the second one, which finds the same entry
  first again, creates \<open>[unnamed colormap 1]\<close>.
\<close>

theorem ensure_colormap_empty_name_not_deduplicated:
  "snd (ensure_colormap structural_env [] (NapariColormap gray_unnamed)) = [([], gray_unnamed)] \<and>
   structural_eq gray_vispy gray_unnamed \<and>
   resolved_name (ensure_colormap structural_env [([], gray_unnamed)] (VispyColormap gray_vispy))
     = Inr ''[unnamed colormap 0]'' \<and>
   resolved_name (ensure_colormap structural_env
       (snd (ensure_colormap structural_env [([], gray_unnamed)] (VispyColormap gray_vispy)))
       (VispyColormap gray_vispy))
     = Inr ''[unnamed colormap 1]''"
  by (simp add: resolved_name_def ensure_colormap_def structural_env_def empty_env_def
      structural_eq_def convert_vispy_colormap_def Colormap_def gray_vispy_def gray_unnamed_def
      Let_def increment_unnamed_colormap_def startswith_def str_nat.simps digit_char_def
      return_entry_def getitem_def)


subsection \<open>color_dict_to_colormap: a single distinct color\<close>

lemma unique_rows_constant:
  assumes "rows \<noteq> []" "\<forall>r \<in> set rows. r = c"
  shows "unique_rows rows = [c]"
proof -
  have rep: "rows = replicate (length rows) c"
    using assms(2) by (simp add: replicate_length_same)
  have "sorted (replicate (length rows) c)" by simp
  then have "sort (replicate (length rows) c) = replicate (length rows) c"
    by (simp add: sort_key_id_if_sorted)
  moreover have "remdups_adj (replicate (length rows) c) = [c]"
    using assms(1) by (simp add: remdups_adj_replicate)
  ultimately have "remdups_adj (sort (replicate (length rows) c)) = [c]" by simp
  then show ?thesis unfolding unique_rows_def using rep by simp
qed

text \<open>With two distinct colors the function returns: the model at three labels.\<close>

lemma color_dict_to_colormap_two_colors:
  "color_dict_to_colormap [(1, [1, 0, 0, 1]), (2, [0, 0, 0, 1]), (5, [1, 0, 0, 1])] =
     Inr (Colormap [[0, 0, 0, 1], [1, 0, 0, 1]] None None None, [(1, 1), (2, 0), (5, 1)])"
  by (simp add: color_dict_to_colormap_def unique_rows_def)

text \<open>
  Claim C10: for every non-empty mapping whose values are all the same color \<open>c\<close>,
  \<open>color_dict_to_colormap\<close> does not return a pair: there is one control color, the index
  of the first control is computed as \<open>0 / (1 - 1)\<close>, and the division raises
  ZeroDivisionError.
\<close>

theorem color_dict_to_colormap_single_color:
  assumes "cols \<noteq> []" "\<forall>p \<in> set cols. snd p = c"
  shows "color_dict_to_colormap cols = Inl ZeroDivisionError"
proof -
  have "unique_rows (map snd cols) = [c]"
    using assms by (intro unique_rows_constant) auto
  then show ?thesis by (simp add: color_dict_to_colormap_def)
qed

text \<open>The theorem at a dict with one label, and at a dict with two labels of one color.\<close>

theorem color_dict_to_colormap_single_color_witness:
  "color_dict_to_colormap [(1, [1, 0, 0, 1])] = Inl ZeroDivisionError \<and>
   color_dict_to_colormap [(3, [0, 1, 0, 1]), (7, [0, 1, 0, 1])] = Inl ZeroDivisionError"
  using color_dict_to_colormap_single_color [of "[(1, [1, 0, 0, 1])]" "[1, 0, 0, 1]"]
    color_dict_to_colormap_single_color [of "[(3, [0, 1, 0, 1]), (7, [0, 1, 0, 1])]" "[0, 1, 0, 1]"]
  by simp

subsection \<open>_color_random: when the loop returns\<close>

lemma validate_rgb_in_unit: "p \<in> set (validate_rgb cols tolerance) \<Longrightarrow> in_unit p"
  by (auto simp: validate_rgb_def in_unit_def clip_def Let_def)

lemma color_random_pass_in_unit:
  "p \<in> set (color_random_pass cc n colorspace tolerance seed factor) \<Longrightarrow> in_unit p"
  unfolding color_random_pass_def Let_def by (rule validate_rgb_in_unit)

lemma validate_rgb_reject_all:
  assumes "tolerance \<le> - 1/2"
  shows "validate_rgb cols tolerance = []"
proof -
  have "\<not> (r > 0 - tolerance \<and> r < 1 + tolerance)" for r :: real
    using assms by linarith
  then show ?thesis by (simp add: validate_rgb_def case_prod_beta)
qed

lemma color_random_pass_reject_all:
  "tolerance \<le> - 1/2 \<Longrightarrow> color_random_pass cc n colorspace tolerance seed factor = []"
  by (simp add: color_random_pass_def Let_def validate_rgb_reject_all)

lemma loop_exit:
  "\<not> int (length rgb) < n \<Longrightarrow>
   color_random_loop cc n colorspace tolerance seed factor rgb = Some (slice_to rgb n)"
  by (subst color_random_loop.simps) simp

lemma loop_step:
  "int (length rgb) < n \<Longrightarrow>
   color_random_loop cc n colorspace tolerance seed factor rgb =
   color_random_loop cc n colorspace tolerance seed (factor * 2)
     (color_random_pass cc n colorspace tolerance seed factor)"
  by (subst color_random_loop.simps) (simp add: expand_factor_def)

text \<open>The loop returns at the first pass that yields enough valid colors.\<close>

lemma loop_returns_at:
  assumes "int (length rgb) < n"
    and "pass_suffices cc n colorspace tolerance seed (j + d)"
    and "\<forall>i. j \<le> i \<and> i < j + d \<longrightarrow> \<not> pass_suffices cc n colorspace tolerance seed i"
  shows "color_random_loop cc n colorspace tolerance seed (6 * 2 ^ j) rgb =
         Some (slice_to (color_random_pass cc n colorspace tolerance seed (6 * 2 ^ (j + d))) n)"
  using assms
proof (induction d arbitrary: j rgb)
  case 0
  then show ?case
    by (simp add: loop_step loop_exit pass_suffices_def)
next
  case (Suc d)
  have short: "int (length (color_random_pass cc n colorspace tolerance seed (6 * 2 ^ j))) < n"
    using Suc.prems(3) by (auto simp: pass_suffices_def)
  have "color_random_loop cc n colorspace tolerance seed (6 * 2 ^ Suc j)
          (color_random_pass cc n colorspace tolerance seed (6 * 2 ^ j)) =
        Some (slice_to (color_random_pass cc n colorspace tolerance seed (6 * 2 ^ (Suc j + d))) n)"
    using short Suc.prems by (intro Suc.IH) auto
  then show ?case using Suc.prems(1) by (simp add: loop_step mult.commute mult.left_commute)
qed

lemma color_random_returns_at:
  assumes "1 \<le> n" "pass_suffices cc n colorspace tolerance seed k"
    and "\<forall>i < k. \<not> pass_suffices cc n colorspace tolerance seed i"
  shows "color_random cc n colorspace tolerance seed =
         Some (slice_to (color_random_pass cc n colorspace tolerance seed (6 * 2 ^ k)) n)"
  using loop_returns_at [of "[]" n cc colorspace tolerance seed 0 k] assms
  by (simp add: color_random_def)

lemma color_random_returns:
  assumes "1 \<le> n" "pass_suffices cc n colorspace tolerance seed k"
  shows "\<exists>rgb. color_random cc n colorspace tolerance seed = Some rgb \<and>
            int (length rgb) = n \<and> (\<forall>p \<in> set rgb. in_unit p)"
proof -
  define k0 where "k0 = (LEAST k. pass_suffices cc n colorspace tolerance seed k)"
  have ok: "pass_suffices cc n colorspace tolerance seed k0"
    unfolding k0_def using assms(2) by (rule LeastI)
  have least: "\<forall>i < k0. \<not> pass_suffices cc n colorspace tolerance seed i"
    unfolding k0_def using not_less_Least by blast
  let ?pass = "color_random_pass cc n colorspace tolerance seed (6 * 2 ^ k0)"
  have ret: "color_random cc n colorspace tolerance seed = Some (slice_to ?pass n)"
    using assms(1) ok least by (rule color_random_returns_at)
  have len: "n \<le> int (length ?pass)" using ok by (simp add: pass_suffices_def)
  have slice: "slice_to ?pass n = take (nat n) ?pass" using assms(1) by (simp add: slice_to_def)
  have "int (length (slice_to ?pass n)) = n" using len assms(1) by (simp add: slice)
  moreover have "\<forall>p \<in> set (slice_to ?pass n). in_unit p"
    unfolding slice using color_random_pass_in_unit by (metis in_set_takeD)
  ultimately show ?thesis using ret by simp
qed

text \<open>A call that returns has seen a pass that yields enough valid colors.\<close>

lemma loop_returns_only_if:
  assumes "color_random_loop cc n colorspace tolerance seed factor rgb = Some result"
  shows "\<forall>j. factor = 6 * 2 ^ j \<longrightarrow> int (length rgb) < n \<longrightarrow>
           (\<exists>k. pass_suffices cc n colorspace tolerance seed k)"
proof (rule color_random_loop.raw_induct
      [where P = "\<lambda>cc n colorspace tolerance seed factor rgb result.
          \<forall>j. factor = 6 * 2 ^ j \<longrightarrow> int (length rgb) < n \<longrightarrow>
             (\<exists>k. pass_suffices cc n colorspace tolerance seed k)", OF _ assms], intro allI impI)
  fix f cc n colorspace tolerance seed factor rgb and result :: "point list" and j :: nat
  assume IH: "\<And>cc n colorspace tolerance seed factor rgb result.
      f cc n colorspace tolerance seed factor rgb = Some result \<Longrightarrow>
      \<forall>j. factor = 6 * 2 ^ j \<longrightarrow> int (length rgb) < n \<longrightarrow>
         (\<exists>k. pass_suffices cc n colorspace tolerance seed k)"
    and step: "(if int (length rgb) < n
          then f cc n colorspace tolerance seed (factor * expand_factor)
                 (color_random_pass cc n colorspace tolerance seed factor)
          else Some (slice_to rgb n)) = Some result"
    and factor: "factor = 6 * 2 ^ j" and short: "int (length rgb) < n"
  from step short
  have call: "f cc n colorspace tolerance seed (factor * expand_factor)
                 (color_random_pass cc n colorspace tolerance seed factor) = Some result"
    by simp
  have next_factor: "factor * expand_factor = 6 * 2 ^ Suc j"
    by (simp add: factor expand_factor_def)
  show "\<exists>k. pass_suffices cc n colorspace tolerance seed k"
  proof (cases "pass_suffices cc n colorspace tolerance seed j")
    case True
    then show ?thesis ..
  next
    case False
    then have "int (length (color_random_pass cc n colorspace tolerance seed factor)) < n"
      by (simp add: pass_suffices_def factor)
    with IH [OF call] next_factor show ?thesis by blast
  qed
qed

lemma color_random_returns_iff:
  assumes "1 \<le> n"
  shows "color_random cc n colorspace tolerance seed \<noteq> None \<longleftrightarrow>
         (\<exists>k. pass_suffices cc n colorspace tolerance seed k)"
proof
  assume "color_random cc n colorspace tolerance seed \<noteq> None"
  then obtain result where "color_random_loop cc n colorspace tolerance seed 6 [] = Some result"
    by (auto simp: color_random_def)
  from loop_returns_only_if [OF this, THEN spec, of 0] assms
  show "\<exists>k. pass_suffices cc n colorspace tolerance seed k"
    by simp
next
  assume "\<exists>k. pass_suffices cc n colorspace tolerance seed k"
  then show "color_random cc n colorspace tolerance seed \<noteq> None"
    using color_random_returns [OF assms] by fastforce
qed

lemma color_random_never_returns:
  assumes "1 \<le> n" "tolerance \<le> - 1/2"
  shows "color_random cc n colorspace tolerance seed = None"
proof -
  have "\<not> pass_suffices cc n colorspace tolerance seed k" for k
    using assms by (simp add: pass_suffices_def color_random_pass_reject_all)
  then show ?thesis using color_random_returns_iff [OF assms(1)] by blast
qed


text \<open>
  Claim C2, as stated, fails. With tolerance -1 no color is valid, and the call for one
  color never returns: the loop has no bound on its passes and no exception for an
  exhausted budget (the model does not represent the exhaustion of memory by the growing
  candidate arrays).
\<close>

theorem color_random_negative_tolerance_diverges:
  "color_random gray_conv 1 ''rgb'' (- 1) (SeedFloat 0.5) = None"
  by (rule color_random_never_returns) simp_all

text \<open>
  Claim C2, amended: the rejection loop of \<open>_color_random\<close> has no retry bound and no error
  for an exhausted budget. For \<open>n \<ge> 1\<close> the call returns exactly when some pass, of budget
  \<open>n * 6 * 2 ^ k\<close>, yields at least \<open>n\<close> valid colors; when the tolerance is at most -1/2 no
  color is ever valid and the call never returns.
\<close>

theorem color_random_unbounded_retries:
  assumes "1 \<le> n"
  shows "(color_random cc n colorspace tolerance seed \<noteq> None \<longleftrightarrow>
            (\<exists>k. pass_suffices cc n colorspace tolerance seed k)) \<and>
         (tolerance \<le> - 1/2 \<longrightarrow> color_random cc n colorspace tolerance seed = None)"
  using color_random_returns_iff [OF assms] color_random_never_returns [OF assms] by blast

text \<open>The theorem at three colors in \<open>lab\<close> with tolerance -3/4.\<close>

theorem color_random_unbounded_retries_witness:
  "(1::int) \<le> 3 \<and> (- 3/4 :: real) \<le> - 1/2 \<and>
   color_random gray_conv 3 ''lab'' (- 3/4) (SeedArray 0 0.5 0.25) = None"
proof -
  have a: "(1::int) \<le> 3" and b: "(- 3/4 :: real) \<le> - 1/2" by simp_all
  have "color_random gray_conv 3 ''lab'' (- 3/4) (SeedArray 0 0.5 0.25) = None"
    using color_random_unbounded_retries [OF a, of gray_conv "''lab''" "- 3/4" "SeedArray 0 0.5 0.25"] b
    by blast
  then show ?thesis using a b by blast
qed

subsection \<open>_color_random: the first pass suffices in the colorspace rgb\<close>

















subsection \<open>label_colormap: the fields of the result\<close>










end
